theory Spec2Isabelle
  imports Complex_Main "HOL-Library.Word"
begin

section \<open>JavaScript values\<close>

text \<open>
  A JavaScript string is a sequence of UTF-16 code units: \<open>length\<close>, \<open>slice\<close>,
  \<open>startsWith\<close>, \<open>trim\<close> and a regular expression without the \<open>u\<close> flag all work on
  code units. String literals of the source are written \<open>js ''...''\<close>.
\<close>

type_synonym jsstring = "16 word list"

definition js :: "string \<Rightarrow> jsstring" where
  "js s = map (\<lambda>c. of_nat (of_char c)) s"

text \<open>
  \<open>String.prototype.trim\<close> removes WhiteSpace and LineTerminator code points from both
  ends (ECMA-262): TAB, LF, VT, FF, CR, SP, NBSP, U+1680, U+2000..U+200A, U+2028, U+2029,
  U+202F, U+205F, U+3000 and U+FEFF.
\<close>

definition isWhiteSpace :: "16 word \<Rightarrow> bool" where
  "isWhiteSpace c \<longleftrightarrow>
     (0x09 \<le> c \<and> c \<le> 0x0D) \<or> c = 0x20 \<or> c = 0xA0 \<or> c = 0x1680 \<or>
     (0x2000 \<le> c \<and> c \<le> 0x200A) \<or> c = 0x2028 \<or> c = 0x2029 \<or> c = 0x202F \<or>
     c = 0x205F \<or> c = 0x3000 \<or> c = 0xFEFF"

definition trim :: "jsstring \<Rightarrow> jsstring" where
  "trim s = rev (dropWhile isWhiteSpace (rev (dropWhile isWhiteSpace s)))"

definition startsWith :: "jsstring \<Rightarrow> jsstring \<Rightarrow> bool" where
  "startsWith s p \<longleftrightarrow> take (length p) s = p"

definition slice_str :: "nat \<Rightarrow> jsstring \<Rightarrow> jsstring" where
  "slice_str n s = drop n s"

section \<open>utils/errors.js\<close>

text \<open>
  \<open>AppError\<close> is the repository's error class (message, \<open>extensions.code\<close>,
  \<open>extensions.httpStatus\<close>). The other constructors are what the libraries throw:
  Mongoose's \<open>ValidationError\<close> (the failing paths with their messages), the MongoDB
  driver's duplicate-key error, and a plain \<open>Error\<close> (jsonwebtoken, bcryptjs).
\<close>

datatype js_error =
    AppError (message: jsstring) (code: jsstring) (httpStatus: nat)
  | ValidationError "(jsstring \<times> jsstring) list"
  | MongoServerError nat
  | Error jsstring

definition notFound :: "jsstring \<Rightarrow> js_error" where
  "notFound entity = AppError (entity @ js '' not found.'') (js ''NOT_FOUND'') 404"

definition badInput :: "jsstring \<Rightarrow> js_error" where
  "badInput msg = AppError msg (js ''BAD_USER_INPUT'') 400"

definition conflict :: "jsstring \<Rightarrow> js_error" where
  "conflict msg = AppError msg (js ''CONFLICT'') 409"

definition unauth :: "jsstring option \<Rightarrow> js_error" where
  "unauth msg =
     AppError (case msg of None \<Rightarrow> js ''You need to be logged in to do that.'' | Some m \<Rightarrow> m)
       (js ''UNAUTHENTICATED'') 401"

section \<open>External libraries and configuration\<close>

text \<open>
  \<open>process.env\<close>: a variable is a string or undefined.
\<close>

record process_env =
  JWT_SECRET :: "jsstring option"
  JWT_EXPIRES_IN :: "jsstring option"

text \<open>The decoded payload of a token signed by \<open>signToken\<close>.\<close>

record jwt_payload =
  userId :: jsstring
  iat :: int
  exp :: int

text \<open>
  The library functions the repository calls, taken as parameters: jsonwebtoken
  (\<open>sign\<close> and \<open>verify\<close> read the clock and throw on a bad key, option or token),
  bcryptjs (\<open>hash\<close> draws a random salt, here an argument), validator.js and the
  built-ins \<open>toLowerCase\<close> and \<open>Date.prototype.toISOString\<close>.
\<close>

record library =
  jwt_sign :: "jsstring \<Rightarrow> jsstring option \<Rightarrow> jsstring \<Rightarrow> int \<Rightarrow> js_error + jsstring"
  jwt_verify :: "jsstring \<Rightarrow> jsstring option \<Rightarrow> int \<Rightarrow> js_error + jwt_payload"
  bcrypt_hash :: "jsstring \<Rightarrow> nat \<Rightarrow> jsstring \<Rightarrow> jsstring"
  bcrypt_compare :: "jsstring \<Rightarrow> jsstring \<Rightarrow> bool"
  isEmail :: "jsstring \<Rightarrow> bool"
  toLowerCase :: "jsstring \<Rightarrow> jsstring"
  toISOString :: "int \<Rightarrow> jsstring"

text \<open>\<open>v || d\<close> for a string or undefined \<open>v\<close>: undefined and the empty string are falsy.\<close>

definition or_default :: "jsstring option \<Rightarrow> jsstring \<Rightarrow> jsstring" where
  "or_default v d = (case v of None \<Rightarrow> d | Some s \<Rightarrow> if s = [] then d else s)"

section \<open>utils/validators.js\<close>

text \<open>
  \<open>if (!value || String(value).trim() === "") throw badInput(...)\<close>. The message holds
  the field name between double quotes (code unit 0x22) and an em dash (0x2014).
\<close>

definition requireField :: "jsstring \<Rightarrow> jsstring \<Rightarrow> js_error + unit" where
  "requireField v fieldName =
     (if v = [] \<or> trim v = []
      then Inl (badInput ([0x22] @ fieldName @ [0x22] @ js '' is required '' @ [0x2014] @
                          js '' you can't leave it empty.''))
      else Inr ())"

definition validateEmail :: "library \<Rightarrow> jsstring \<Rightarrow> js_error + unit" where
  "validateEmail lib e =
     (if \<not> isEmail lib e
      then Inl (badInput ([0x22] @ e @ [0x22] @ js '' doesn't look like a valid email address.''))
      else Inr ())"

text \<open>The character classes of the regular expressions, on code units.\<close>

definition isUpper :: "16 word \<Rightarrow> bool" where
  "isUpper c \<longleftrightarrow> 0x41 \<le> c \<and> c \<le> 0x5A"

definition isLower :: "16 word \<Rightarrow> bool" where
  "isLower c \<longleftrightarrow> 0x61 \<le> c \<and> c \<le> 0x7A"

definition isDigit :: "16 word \<Rightarrow> bool" where
  "isDigit c \<longleftrightarrow> 0x30 \<le> c \<and> c \<le> 0x39"

text \<open>\<open>/^[a-zA-Z0-9_]+$/.test(s)\<close>: without the \<open>m\<close> flag \<open>$\<close> is the end of the input.\<close>

definition isWordString :: "jsstring \<Rightarrow> bool" where
  "isWordString s \<longleftrightarrow> s \<noteq> [] \<and> list_all (\<lambda>c. isLower c \<or> isUpper c \<or> isDigit c \<or> c = 0x5F) s"

definition validatePassword :: "jsstring \<Rightarrow> js_error + unit" where
  "validatePassword pw =
     (if pw = [] \<or> length pw < 8
        then Inl (badInput (js ''Password needs to be at least 8 characters.''))
      else if \<not> list_ex isUpper pw
        then Inl (badInput (js ''Password needs at least one uppercase letter.''))
      else if \<not> list_ex isLower pw
        then Inl (badInput (js ''Password needs at least one lowercase letter.''))
      else if \<not> list_ex isDigit pw
        then Inl (badInput (js ''Password needs at least one number.''))
      else Inr ())"

section \<open>models/User.js\<close>

text \<open>
  A user document; \<open>oid\<close> is the field \<open>_id\<close>. The schema marks \<open>password\<close> with
  \<open>select: false\<close>: a query leaves the field out (\<open>None\<close>) unless it asks for it with
  \<open>.select("+password")\<close>. Timestamps are milliseconds since the epoch.
\<close>

record user =
  oid :: jsstring
  username :: jsstring
  email :: jsstring
  password :: "jsstring option"
  is_active :: bool
  created_at :: int
  updated_at :: int

text \<open>
  A hash comparison as an observable step: \<open>Compare candidate hash\<close> stands for one run
  of \<open>bcrypt.compare(candidate, hash)\<close> on two strings.
\<close>

datatype bcrypt_call = Compare jsstring jsstring

text \<open>
  \<open>comparePassword\<close>: \<open>return bcrypt.compare(candidate, this.password)\<close>. With the hash
  left out of the document bcryptjs rejects its arguments before it computes anything.
  The result comes with the hash comparisons that ran.
\<close>

definition comparePassword :: "library \<Rightarrow> user \<Rightarrow> jsstring \<Rightarrow> (js_error + bool) \<times> bcrypt_call list" where
  "comparePassword lib this candidate =
     (case password this of
        None \<Rightarrow> (Inl (Error (js ''Illegal arguments: string, undefined'')), [])
      | Some h \<Rightarrow> (Inr (bcrypt_compare lib candidate h), [Compare candidate h]))"

text \<open>
  \<open>findByCredential\<close>: \<open>findOne({$or: [{username: x}, {email: x.toLowerCase()}]})\<close> with
  \<open>.select("+password")\<close>: the first document of the collection that matches either
  condition, with its password field. The filter values are the ones the source
  writes; a cast of them through the schema's setters is not modelled, and the results
  on \<open>login\<close> are stated for whatever the lookup returns.
\<close>

definition findByCredential :: "library \<Rightarrow> user list \<Rightarrow> jsstring \<Rightarrow> user option" where
  "findByCredential lib users usernameOrEmail =
     find (\<lambda>u. username u = usernameOrEmail \<or> email u = toLowerCase lib usernameOrEmail) users"

text \<open>
  \<open>User.findById\<close>: the document with that \<open>_id\<close>, without the password field
  (\<open>select: false\<close>). An id that does not cast to an ObjectId makes Mongoose throw; no
  document has such an id, and the only caller treats the exception as no document.
\<close>

definition findById :: "user list \<Rightarrow> jsstring \<Rightarrow> user option" where
  "findById users i = map_option (\<lambda>u. u\<lparr>password := None\<rparr>) (find (\<lambda>u. oid u = i) users)"

text \<open>
  The pre-save hook:
  \<^verbatim>\<open>if (!this.isModified("password")) return next();
  this.password = await bcrypt.hash(this.password, 12);\<close>
  \<open>isModified\<close> is the document's own bookkeeping, given as an argument.
\<close>

definition pre_save :: "library \<Rightarrow> jsstring \<Rightarrow> (jsstring \<Rightarrow> bool) \<Rightarrow> user \<Rightarrow> js_error + user" where
  "pre_save lib salt isModified this =
     (if \<not> isModified (js ''password'') then Inr this
      else case password this of
             None \<Rightarrow> Inl (Error (js ''Illegal arguments: undefined, number''))
           | Some p \<Rightarrow> Inr (this\<lparr>password := Some (bcrypt_hash lib p 12 salt)\<rparr>))"

subsection \<open>Mongoose on the user schema\<close>

text \<open>
  The schema of models/User.js declares setters, defaults, validators and unique
  indexes; Mongoose applies them in \<open>create\<close> and \<open>insertMany\<close>. What follows is the
  schema read with Mongoose's documented behaviour: setters and defaults when the
  document is built, validation before any write, the \<open>save\<close> middleware in \<open>save\<close> and
  \<open>create\<close> only, the unique indexes at the insert.

  The validators: for each path the first failing validator gives the path's message.
\<close>

definition validate_username :: "jsstring \<Rightarrow> (jsstring \<times> jsstring) list" where
  "validate_username v =
     (if v = [] then [(js ''username'', js ''Username is required.'')]
      else if length v < 3 then [(js ''username'', js ''Username must be at least 3 characters.'')]
      else if length v > 30 then [(js ''username'', js ''Username can't be longer than 30 characters.'')]
      else if \<not> isWordString v
        then [(js ''username'', js ''Username can only have letters, numbers, and underscores.'')]
      else [])"

definition validate_email :: "library \<Rightarrow> jsstring \<Rightarrow> (jsstring \<times> jsstring) list" where
  "validate_email lib v =
     (if v = [] then [(js ''email'', js ''Email is required.'')]
      else if \<not> isEmail lib v then [(js ''email'', js ''That doesn't look like a valid email.'')]
      else [])"

definition validate_password :: "jsstring \<Rightarrow> (jsstring \<times> jsstring) list" where
  "validate_password v =
     (if v = [] then [(js ''password'', js ''Password is required.'')]
      else if length v < 8 then [(js ''password'', js ''Password must be at least 8 characters.'')]
      else [])"

text \<open>
  The fields a caller passes to \<open>User.create\<close> or \<open>User.insertMany\<close>.
\<close>

record user_input =
  input_username :: jsstring
  input_email :: jsstring
  input_password :: jsstring

text \<open>
  \<open>new User(fields)\<close>: the schema's setters (\<open>trim\<close> on the username, \<open>trim\<close> and
  \<open>lowercase\<close> on the email) and defaults (\<open>is_active: true\<close>), a fresh \<open>_id\<close> and the
  timestamps.
\<close>

definition new_User :: "library \<Rightarrow> jsstring \<Rightarrow> int \<Rightarrow> user_input \<Rightarrow> user" where
  "new_User lib fresh now doc =
     \<lparr>oid = fresh, username = trim (input_username doc),
      email = toLowerCase lib (trim (input_email doc)),
      password = Some (input_password doc), is_active = True,
      created_at = now, updated_at = now\<rparr>"

definition validate :: "library \<Rightarrow> user \<Rightarrow> (jsstring \<times> jsstring) list" where
  "validate lib d =
     validate_username (username d) @ validate_email lib (email d) @
     validate_password (case password d of None \<Rightarrow> [] | Some p \<Rightarrow> p)"

text \<open>
  The unique indexes on \<open>username\<close> and \<open>email\<close>: MongoDB refuses the insert with the
  duplicate-key error 11000.
\<close>

definition insertOne :: "user list \<Rightarrow> user \<Rightarrow> js_error + user list" where
  "insertOne users d =
     (if list_ex (\<lambda>u. username u = username d \<or> email u = email d \<or> oid u = oid d) users
      then Inl (MongoServerError 11000)
      else Inr (users @ [d]))"

text \<open>
  \<open>User.create(fields)\<close> is \<open>new User(fields).save()\<close>: validation, then the pre-save
  hook (the paths given to a new document count as modified), then the insert. The
  result is the created document, or the error, and the collection.
\<close>

definition User_create ::
  "library \<Rightarrow> jsstring \<Rightarrow> jsstring \<Rightarrow> int \<Rightarrow> user list \<Rightarrow> user_input \<Rightarrow> (js_error + user) \<times> user list" where
  "User_create lib salt fresh now users doc =
     (let d = new_User lib fresh now doc in
      case validate lib d of
        e # es \<Rightarrow> (Inl (ValidationError (e # es)), users)
      | [] \<Rightarrow>
        (case pre_save lib salt (\<lambda>path. path \<in> {js ''username'', js ''email'', js ''password''}) d of
           Inl err \<Rightarrow> (Inl err, users)
         | Inr d' \<Rightarrow>
           (case insertOne users d' of
              Inl err \<Rightarrow> (Inl err, users)
            | Inr users' \<Rightarrow> (Inr d', users'))))"

text \<open>
  \<open>User.insertMany(docs)\<close> validates every document and sends one ordered insert to
  MongoDB. It does not run the \<open>save\<close> middleware, so the pre-save hook is not called.
  With a document that fails validation nothing is inserted; the ordered insert stops
  at the first duplicate key.
\<close>

fun insertAll :: "user list \<Rightarrow> user list \<Rightarrow> (js_error + unit) \<times> user list" where
  "insertAll users [] = (Inr (), users)"
| "insertAll users (d # ds) =
     (case insertOne users d of
        Inl err \<Rightarrow> (Inl err, users)
      | Inr users' \<Rightarrow> insertAll users' ds)"

definition User_insertMany ::
  "library \<Rightarrow> (nat \<Rightarrow> jsstring) \<Rightarrow> int \<Rightarrow> user list \<Rightarrow> user_input list \<Rightarrow> (js_error + unit) \<times> user list" where
  "User_insertMany lib fresh now users docs =
     (let ds = map (\<lambda>(i, doc). new_User lib (fresh i) now doc) (enumerate 0 docs) in
      case concat (map (validate lib) ds) of
        e # es \<Rightarrow> (Inl (ValidationError (e # es)), users)
      | [] \<Rightarrow> insertAll users ds)"

section \<open>middleware/auth.js\<close>

record request =
  authorization :: "jsstring option"

record request_context =
  user :: "user option"
  req :: request

text \<open>
  \<open>buildContext\<close>. The header is \<open>req.headers.authorization || ""\<close>. Everything that
  throws inside the \<open>try\<close> block (jsonwebtoken's \<open>verify\<close>) is caught and gives the
  anonymous context, so the function itself never throws.
\<close>

definition buildContext :: "library \<Rightarrow> process_env \<Rightarrow> user list \<Rightarrow> int \<Rightarrow> request \<Rightarrow> request_context" where
  "buildContext lib penv users now r =
     (let authHeader = or_default (authorization r) [] in
      if \<not> startsWith authHeader (js ''Bearer '') then \<lparr>user = None, req = r\<rparr>
      else
        let token = trim (slice_str 7 authHeader) in
        if token = [] then \<lparr>user = None, req = r\<rparr>
        else
          (case jwt_verify lib token (JWT_SECRET penv) now of
             Inl err \<Rightarrow> \<lparr>user = None, req = r\<rparr>
           | Inr decoded \<Rightarrow>
             (case findById users (userId decoded) of
                None \<Rightarrow> \<lparr>user = None, req = r\<rparr>
              | Some u \<Rightarrow>
                if \<not> is_active u then \<lparr>user = None, req = r\<rparr>
                else \<lparr>user = Some u, req = r\<rparr>)))"

text \<open>\<open>if (!context.user) throw unauth(); return context.user;\<close>\<close>

definition requireAuth :: "request_context \<Rightarrow> js_error + user" where
  "requireAuth ctx = (case user ctx of None \<Rightarrow> Inl (unauth None) | Some u \<Rightarrow> Inr u)"

text \<open>
  \<open>signToken\<close>: \<open>jwt.sign({ userId }, process.env.JWT_SECRET,
  { expiresIn: process.env.JWT_EXPIRES_IN || "7d" })\<close>.
\<close>

definition signToken :: "library \<Rightarrow> process_env \<Rightarrow> int \<Rightarrow> jsstring \<Rightarrow> js_error + jsstring" where
  "signToken lib penv now uid =
     jwt_sign lib uid (JWT_SECRET penv) (or_default (JWT_EXPIRES_IN penv) (js ''7d'')) now"

section \<open>graphql/resolvers.js\<close>

text \<open>The object the \<open>login\<close> resolver returns.\<close>

record login_result =
  token :: jsstring
  token_type :: jsstring
  expires_in :: jsstring
  login_user :: user

text \<open>
  The \<open>login\<close> resolver, with the hash comparisons it ran. The arguments are
  non-null strings (\<open>String!\<close> in the schema). Logging is left out.
\<close>

definition login ::
  "library \<Rightarrow> process_env \<Rightarrow> user list \<Rightarrow> int \<Rightarrow> jsstring \<Rightarrow> jsstring \<Rightarrow>
     (js_error + login_result) \<times> bcrypt_call list" where
  "login lib penv users now usernameOrEmail pw =
     (case requireField usernameOrEmail (js ''usernameOrEmail'') of
        Inl err \<Rightarrow> (Inl err, [])
      | Inr _ \<Rightarrow>
     (case requireField pw (js ''password'') of
        Inl err \<Rightarrow> (Inl err, [])
      | Inr _ \<Rightarrow>
     (case findByCredential lib users usernameOrEmail of
        None \<Rightarrow>
          (Inl (badInput (js ''Those credentials don't match anything in our system. Double-check and try again.'')), [])
      | Some u \<Rightarrow>
     (case comparePassword lib u pw of
        (Inl err, calls) \<Rightarrow> (Inl err, calls)
      | (Inr ok, calls) \<Rightarrow>
          if \<not> ok then
            (Inl (badInput (js ''Those credentials don't match anything in our system. Double-check and try again.'')), calls)
          else if \<not> is_active u then
            (Inl (badInput (js ''This account has been deactivated. Reach out to support if that's unexpected.'')), calls)
          else
            (case signToken lib penv now (oid u) of
               Inl err \<Rightarrow> (Inl err, calls)
             | Inr t \<Rightarrow>
                 (Inr \<lparr>token = t, token_type = js ''Bearer'',
                       expires_in = or_default (JWT_EXPIRES_IN penv) (js ''7d''),
                       login_user = u\<rparr>, calls))))))"

text \<open>The bonus query \<open>me\<close>: \<open>return requireAuth(context);\<close>\<close>

definition me :: "request_context \<Rightarrow> js_error + user" where
  "me ctx = requireAuth ctx"

text \<open>
  A nullable \<open>Int\<close> argument of the schema: left out of the query (undefined in the
  resolver's arguments), given as \<open>null\<close>, or a 32-bit signed integer. Doubles hold these
  integers, their differences and the products below exactly, so the arithmetic is
  that of the integers.
\<close>

datatype int_arg = Omitted | Null | IntValue "32 word"

text \<open>
  The destructuring default \<open>{ page = 1, limit = 20 }\<close> replaces undefined only; the
  result is a number or \<open>null\<close> (\<open>None\<close>).
\<close>

definition with_default :: "int_arg \<Rightarrow> int \<Rightarrow> int option" where
  "with_default a d = (case a of Omitted \<Rightarrow> Some d | Null \<Rightarrow> None | IntValue w \<Rightarrow> Some (sint w))"

text \<open>\<open>Math.max\<close> and \<open>Math.min\<close> convert their arguments with ToNumber: \<open>null\<close> is 0.\<close>

definition ToNumber :: "int option \<Rightarrow> int" where
  "ToNumber v = (case v of None \<Rightarrow> 0 | Some n \<Rightarrow> n)"

definition safePage :: "int_arg \<Rightarrow> int" where
  "safePage page = max 1 (ToNumber (with_default page 1))"

definition safeLimit :: "int_arg \<Rightarrow> int" where
  "safeLimit limit = min 100 (max 1 (ToNumber (with_default limit 20)))"

definition skip :: "int_arg \<Rightarrow> int_arg \<Rightarrow> int" where
  "skip page limit = (safePage page - 1) * safeLimit limit"

text \<open>models/Employee.js: an employee document.\<close>

record employee =
  emp_oid :: jsstring
  first_name :: jsstring
  last_name :: jsstring
  emp_email :: jsstring
  gender :: jsstring
  designation :: jsstring
  salary :: real
  date_of_joining :: int
  department :: jsstring
  employee_photo :: "jsstring option"
  emp_created_at :: int
  emp_updated_at :: int

record employee_list =
  total_count :: nat
  employees :: "employee list"

text \<open>
  \<open>getAllEmployees\<close>: the gate, then
  \<open>Employee.find().sort({ created_at: -1 }).skip(skip).limit(safeLimit)\<close> and
  \<open>Employee.countDocuments()\<close>.
\<close>

definition getAllEmployees ::
  "request_context \<Rightarrow> employee list \<Rightarrow> int_arg \<Rightarrow> int_arg \<Rightarrow> js_error + employee_list" where
  "getAllEmployees ctx emps page limit =
     (case requireAuth ctx of
        Inl err \<Rightarrow> Inl err
      | Inr _ \<Rightarrow>
          Inr \<lparr>total_count = length emps,
               employees = take (nat (safeLimit limit))
                             (drop (nat (skip page limit))
                                (sort_key (\<lambda>e. - emp_created_at e) emps))\<rparr>)"

text \<open>
  The \<open>signup\<close> mutation. The result comes with the collection after the call.
\<close>

definition signup ::
  "library \<Rightarrow> jsstring \<Rightarrow> jsstring \<Rightarrow> int \<Rightarrow> user list \<Rightarrow> jsstring \<Rightarrow> jsstring \<Rightarrow> jsstring \<Rightarrow>
     (js_error + user) \<times> user list" where
  "signup lib salt fresh now users uname mail pw =
     (case requireField uname (js ''username'') of Inl err \<Rightarrow> (Inl err, users) | Inr _ \<Rightarrow>
     (case requireField mail (js ''email'') of Inl err \<Rightarrow> (Inl err, users) | Inr _ \<Rightarrow>
     (case requireField pw (js ''password'') of Inl err \<Rightarrow> (Inl err, users) | Inr _ \<Rightarrow>
     (case validateEmail lib mail of Inl err \<Rightarrow> (Inl err, users) | Inr _ \<Rightarrow>
     (case validatePassword pw of Inl err \<Rightarrow> (Inl err, users) | Inr _ \<Rightarrow>
        if length uname < 3 then
          (Inl (badInput (js ''Username must be at least 3 characters.'')), users)
        else if \<not> isWordString uname then
          (Inl (badInput (js ''Username can only have letters, numbers, and underscores '' @ [0x2014] @
                          js '' no spaces.'')), users)
        else
          (case find (\<lambda>u. username u = trim uname \<or> email u = trim (toLowerCase lib mail)) users of
             Some taken \<Rightarrow>
               if username taken = trim uname then
                 (Inl (conflict (js ''That username is already taken '' @ [0x2014] @
                                 js '' try a different one.'')), users)
               else (Inl (conflict (js ''That email is already registered.'')), users)
           | None \<Rightarrow>
               User_create lib salt fresh now users
                 \<lparr>input_username = trim uname, input_email = trim mail, input_password = pw\<rparr>))))))"

section \<open>graphql/typeDefs.js\<close>

text \<open>
  The schema's output types \<open>User\<close> and \<open>AuthPayload\<close>. A response holds the fields of
  the type and nothing else of the resolver's object. \<open>created_at\<close> and \<open>updated_at\<close> go
  through the field resolvers \<open>(u) => u.created_at?.toISOString()\<close>.
\<close>

record gql_User =
  gql_id :: jsstring
  gql_username :: jsstring
  gql_email :: jsstring
  gql_is_active :: bool
  gql_created_at :: jsstring
  gql_updated_at :: jsstring

record gql_AuthPayload =
  gql_token :: jsstring
  gql_token_type :: jsstring
  gql_expires_in :: jsstring
  gql_user :: gql_User

definition complete_User :: "library \<Rightarrow> user \<Rightarrow> gql_User" where
  "complete_User lib u =
     \<lparr>gql_id = oid u, gql_username = username u, gql_email = email u,
      gql_is_active = is_active u, gql_created_at = toISOString lib (created_at u),
      gql_updated_at = toISOString lib (updated_at u)\<rparr>"

definition complete_AuthPayload :: "library \<Rightarrow> login_result \<Rightarrow> gql_AuthPayload" where
  "complete_AuthPayload lib r =
     \<lparr>gql_token = token r, gql_token_type = token_type r, gql_expires_in = expires_in r,
      gql_user = complete_User lib (login_user r)\<rparr>"

text \<open>The query \<open>login(usernameOrEmail: String!, password: String!): AuthPayload!\<close>.\<close>

definition Query_login ::
  "library \<Rightarrow> process_env \<Rightarrow> user list \<Rightarrow> int \<Rightarrow> jsstring \<Rightarrow> jsstring \<Rightarrow> js_error + gql_AuthPayload" where
  "Query_login lib penv users now usernameOrEmail pw =
     (case fst (login lib penv users now usernameOrEmail pw) of
        Inl err \<Rightarrow> Inl err
      | Inr r \<Rightarrow> Inr (complete_AuthPayload lib r))"

section \<open>scripts/seed.js\<close>

definition SAMPLE_USERS :: "user_input list" where
  "SAMPLE_USERS =
     [\<lparr>input_username = js ''admin'', input_email = js ''admin@comp3133.ca'',
       input_password = js ''Admin1234''\<rparr>,
      \<lparr>input_username = js ''testuser'', input_email = js ''testuser@comp3133.ca'',
       input_password = js ''Test1234''\<rparr>]"

text \<open>
  What \<open>seed\<close> does to the user collection: \<open>User.deleteMany({})\<close>, then
  \<open>User.insertMany(SAMPLE_USERS)\<close>; an error is caught and logged. The steps on the
  employee collection do not touch the users.
\<close>

definition User_deleteMany :: "user list \<Rightarrow> user list" where
  "User_deleteMany users = []"

definition seed :: "library \<Rightarrow> (nat \<Rightarrow> jsstring) \<Rightarrow> int \<Rightarrow> user list \<Rightarrow> user list" where
  "seed lib fresh now users =
     snd (User_insertMany lib fresh now (User_deleteMany users) SAMPLE_USERS)"

section \<open>Test doubles\<close>

text \<open>
  A small stand-in for the libraries and two stored accounts, used to run the model on
  concrete requests. The stand-in hash is the marker \<open>$2a$\<close>, a two-unit salt and the
  plaintext; it has no cryptographic content.
\<close>

definition stub_library :: library where
  "stub_library =
     \<lparr>jwt_sign = (\<lambda>uid secret ttl now.
         case secret of None \<Rightarrow> Inl (Error (js ''secretOrPrivateKey must have a value''))
         | Some k \<Rightarrow> Inr (js ''tok.'' @ uid)),
      jwt_verify = (\<lambda>t secret now.
         if take 4 t = js ''tok.'' then Inr \<lparr>userId = drop 4 t, iat = now, exp = now + 1\<rparr>
         else Inl (Error (js ''jwt malformed''))),
      bcrypt_hash = (\<lambda>p rounds salt. js ''$2a$'' @ salt @ p),
      bcrypt_compare = (\<lambda>candidate h. take 4 h = js ''$2a$'' \<and> drop 6 h = candidate),
      isEmail = (\<lambda>s. list_ex (\<lambda>c. c = 0x40) s),
      toLowerCase = map (\<lambda>c. if isUpper c then c + 0x20 else c),
      toISOString = (\<lambda>t. js ''1970-01-01T00:00:00.000Z'')\<rparr>"

definition stub_env :: process_env where
  "stub_env = \<lparr>JWT_SECRET = Some (js ''s3cret''), JWT_EXPIRES_IN = None\<rparr>"

definition alice :: user where
  "alice =
     \<lparr>oid = js ''65f0a1b2c3d4e5f601234567'', username = js ''alice'', email = js ''alice@x.com'',
      password = Some (js ''$2a$xxPassw0rd1''), is_active = True,
      created_at = 1000, updated_at = 1000\<rparr>"

definition bob :: user where
  "bob =
     \<lparr>oid = js ''65f0a1b2c3d4e5f601234568'', username = js ''bob'', email = js ''bob@x.com'',
      password = Some (js ''$2a$yyHunter22A''), is_active = False,
      created_at = 2000, updated_at = 2000\<rparr>"

definition carol_emp :: employee where
  "carol_emp =
     \<lparr>emp_oid = js ''65f0a1b2c3d4e5f6012345aa'', first_name = js ''Carol'', last_name = js ''Davis'',
      emp_email = js ''carol.d@company.com'', gender = js ''Female'',
      designation = js ''Product Manager'', salary = 95000, date_of_joining = 0,
      department = js ''Product'', employee_photo = None,
      emp_created_at = 10, emp_updated_at = 10\<rparr>"

lemmas stub_simps =
  js_def stub_library_def stub_env_def alice_def bob_def trim_def isWhiteSpace_def
  isUpper_def isLower_def isDigit_def or_default_def

section \<open>The authorization gate\<close>

text \<open>
  Claim C5. The gate throws the Unauthenticated failure exactly when the identity result
  is anonymous (\<open>context.user\<close> is null); on an authenticated result it returns the very
  account held by the context, and so does the \<open>me\<close> query.
\<close>

theorem requireAuth_gate:
  "(requireAuth ctx =
      Inl (AppError (js ''You need to be logged in to do that.'') (js ''UNAUTHENTICATED'') 401)
        \<longleftrightarrow> user ctx = None) \<and>
   ((\<exists>e. requireAuth ctx = Inl e) \<longleftrightarrow> user ctx = None) \<and>
   (\<forall>u. user ctx = Some u \<longrightarrow> requireAuth ctx = Inr u \<and> me ctx = Inr u)"
  by (cases "user ctx") (simp_all add: requireAuth_def me_def unauth_def)

theorem requireAuth_gate_witness:
  "user \<lparr>user = Some alice, req = \<lparr>authorization = None\<rparr>\<rparr> = Some alice \<and>
   requireAuth \<lparr>user = Some alice, req = \<lparr>authorization = None\<rparr>\<rparr> = Inr alice \<and>
   me \<lparr>user = Some alice, req = \<lparr>authorization = None\<rparr>\<rparr> = Inr alice \<and>
   requireAuth \<lparr>user = None, req = \<lparr>authorization = None\<rparr>\<rparr> =
     Inl (AppError (js ''You need to be logged in to do that.'') (js ''UNAUTHENTICATED'') 401)"
  using requireAuth_gate [of "\<lparr>user = Some alice, req = \<lparr>authorization = None\<rparr>\<rparr>"]
        requireAuth_gate [of "\<lparr>user = None, req = \<lparr>authorization = None\<rparr>\<rparr>"]
  by simp

section \<open>Login\<close>

lemma login_wellformed:
  assumes "requireField x (js ''usernameOrEmail'') = Inr ()"
      and "requireField pw (js ''password'') = Inr ()"
  shows "login lib penv users now x pw =
     (case findByCredential lib users x of
        None \<Rightarrow>
          (Inl (badInput (js ''Those credentials don't match anything in our system. Double-check and try again.'')), [])
      | Some u \<Rightarrow>
     (case comparePassword lib u pw of
        (Inl err, calls) \<Rightarrow> (Inl err, calls)
      | (Inr ok, calls) \<Rightarrow>
          if \<not> ok then
            (Inl (badInput (js ''Those credentials don't match anything in our system. Double-check and try again.'')), calls)
          else if \<not> is_active u then
            (Inl (badInput (js ''This account has been deactivated. Reach out to support if that's unexpected.'')), calls)
          else
            (case signToken lib penv now (oid u) of
               Inl err \<Rightarrow> (Inl err, calls)
             | Inr t \<Rightarrow>
                 (Inr \<lparr>token = t, token_type = js ''Bearer'',
                       expires_in = or_default (JWT_EXPIRES_IN penv) (js ''7d''),
                       login_user = u\<rparr>, calls))))"
  using assms by (simp add: login_def)

lemma login_malformed:
  assumes "requireField x (js ''usernameOrEmail'') \<noteq> Inr () \<or> requireField pw (js ''password'') \<noteq> Inr ()"
  shows "\<exists>m. login lib penv users now x pw = (Inl (AppError m (js ''BAD_USER_INPUT'') 400), [])"
  using assms by (auto simp: login_def requireField_def badInput_def split: if_splits)

lemma requireField_stub:
  "requireField (js ''alice'') f = Inr ()" "requireField (js ''bob'') f = Inr ()"
  "requireField (js ''ghost'') f = Inr ()" "requireField (js ''wrong'') f = Inr ()"
  "requireField (js ''Passw0rd1'') f = Inr ()" "requireField (js ''Hunter22A'') f = Inr ()"
  by (simp_all add: requireField_def stub_simps)

text \<open>
  Claim C1. A login whose identifier matches no record and a login whose identifier
  matches a record but whose password does not verify fail in the same way: the two
  results are equal, they are an error of code \<open>BAD_USER_INPUT\<close> (status 400), and for
  non-blank fields the error is the one credentials message with that code.
\<close>

theorem login_anti_enumeration:
  assumes none: "findByCredential lib users1 x = None"
      and some: "findByCredential lib users2 x = Some u"
      and wrong: "fst (comparePassword lib u pw) = Inr False"
  shows "fst (login lib penv users1 now x pw) = fst (login lib penv users2 now x pw) \<and>
         (\<exists>m. fst (login lib penv users1 now x pw) = Inl (AppError m (js ''BAD_USER_INPUT'') 400)) \<and>
         (requireField x (js ''usernameOrEmail'') = Inr () \<and> requireField pw (js ''password'') = Inr () \<longrightarrow>
            fst (login lib penv users1 now x pw) =
              Inl (AppError (js ''Those credentials don't match anything in our system. Double-check and try again.'')
                     (js ''BAD_USER_INPUT'') 400))"
proof (cases "requireField x (js ''usernameOrEmail'') = Inr () \<and> requireField pw (js ''password'') = Inr ()")
  case True
  then have wf: "requireField x (js ''usernameOrEmail'') = Inr ()" "requireField pw (js ''password'') = Inr ()"
    by simp_all
  from wrong obtain calls where cp: "comparePassword lib u pw = (Inr False, calls)"
    by (cases "comparePassword lib u pw") simp
  have l1: "fst (login lib penv users1 now x pw) =
      Inl (badInput (js ''Those credentials don't match anything in our system. Double-check and try again.''))"
    by (simp add: login_wellformed [OF wf] none)
  have l2: "fst (login lib penv users2 now x pw) =
      Inl (badInput (js ''Those credentials don't match anything in our system. Double-check and try again.''))"
    by (simp add: login_wellformed [OF wf] some cp)
  show ?thesis using l1 l2 by (simp add: badInput_def)
next
  case False
  then have bad: "requireField x (js ''usernameOrEmail'') \<noteq> Inr () \<or> requireField pw (js ''password'') \<noteq> Inr ()"
    by simp
  from login_malformed [OF bad, of lib penv users1 now]
  obtain m where m1: "login lib penv users1 now x pw = (Inl (AppError m (js ''BAD_USER_INPUT'') 400), [])"
    by blast
  have same: "login lib penv users1 now x pw = login lib penv users2 now x pw"
    using bad by (auto simp: login_def split: sum.splits)
  show ?thesis using False m1 same by auto
qed

theorem login_anti_enumeration_witness:
  "findByCredential stub_library [] (js ''alice'') = None \<and>
   findByCredential stub_library [alice] (js ''alice'') = Some alice \<and>
   fst (comparePassword stub_library alice (js ''wrong'')) = Inr False \<and>
   fst (login stub_library stub_env [] 0 (js ''alice'') (js ''wrong'')) =
     Inl (AppError (js ''Those credentials don't match anything in our system. Double-check and try again.'')
            (js ''BAD_USER_INPUT'') 400) \<and>
   fst (login stub_library stub_env [alice] 0 (js ''alice'') (js ''wrong'')) =
     Inl (AppError (js ''Those credentials don't match anything in our system. Double-check and try again.'')
            (js ''BAD_USER_INPUT'') 400)"
proof -
  have h1: "findByCredential stub_library [] (js ''alice'') = None"
    by (simp add: findByCredential_def)
  have h2: "findByCredential stub_library [alice] (js ''alice'') = Some alice"
    by (simp add: findByCredential_def alice_def)
  have h3: "fst (comparePassword stub_library alice (js ''wrong'')) = Inr False"
    by (simp add: comparePassword_def stub_simps)
  note inst = login_anti_enumeration [OF h1 h2 h3, of stub_env 0]
  have a: "fst (login stub_library stub_env [] 0 (js ''alice'') (js ''wrong'')) =
     Inl (AppError (js ''Those credentials don't match anything in our system. Double-check and try again.'')
            (js ''BAD_USER_INPUT'') 400)"
    using inst [THEN conjunct2, THEN conjunct2] by (simp add: requireField_stub)
  have b: "fst (login stub_library stub_env [alice] 0 (js ''alice'') (js ''wrong'')) =
     fst (login stub_library stub_env [] 0 (js ''alice'') (js ''wrong''))"
    using inst [THEN conjunct1] by simp
  show ?thesis
    using a b h1 h2 h3 by simp
qed

lemma bob_found: "findByCredential stub_library [alice, bob] (js ''bob'') = Some bob"
  by (simp add: findByCredential_def stub_simps)

lemma alice_found: "findByCredential stub_library [alice, bob] (js ''alice'') = Some alice"
  by (simp add: findByCredential_def stub_simps)

lemma ghost_not_found: "findByCredential stub_library [alice, bob] (js ''ghost'') = None"
  by (simp add: findByCredential_def stub_simps)

text \<open>
  Claim C6. With non-blank fields, a record found and an inactive account: when the
  password verifies the login fails with the deactivation message under the code
  \<open>BAD_USER_INPUT\<close>; when it does not verify the login fails with the credentials message,
  so the active flag is looked at only after the password check has succeeded. The two
  messages differ.
\<close>

theorem login_deactivated:
  assumes wf: "requireField x (js ''usernameOrEmail'') = Inr ()" "requireField pw (js ''password'') = Inr ()"
      and found: "findByCredential lib users x = Some u"
      and inactive: "\<not> is_active u"
  shows "(fst (comparePassword lib u pw) = Inr True \<longrightarrow>
            fst (login lib penv users now x pw) =
              Inl (AppError (js ''This account has been deactivated. Reach out to support if that's unexpected.'')
                     (js ''BAD_USER_INPUT'') 400)) \<and>
         (fst (comparePassword lib u pw) = Inr False \<longrightarrow>
            fst (login lib penv users now x pw) =
              Inl (AppError (js ''Those credentials don't match anything in our system. Double-check and try again.'')
                     (js ''BAD_USER_INPUT'') 400)) \<and>
         js ''This account has been deactivated. Reach out to support if that's unexpected.'' \<noteq>
         js ''Those credentials don't match anything in our system. Double-check and try again.''"
proof -
  have ne: "js ''This account has been deactivated. Reach out to support if that's unexpected.'' \<noteq>
         js ''Those credentials don't match anything in our system. Double-check and try again.''"
    by (simp add: js_def)
  have "fst (login lib penv users now x pw) =
          Inl (badInput (js ''This account has been deactivated. Reach out to support if that's unexpected.''))"
    if "fst (comparePassword lib u pw) = Inr True"
  proof -
    from that obtain calls where "comparePassword lib u pw = (Inr True, calls)"
      by (cases "comparePassword lib u pw") simp
    then show ?thesis by (simp add: login_wellformed [OF wf] found inactive)
  qed
  moreover have "fst (login lib penv users now x pw) =
          Inl (badInput (js ''Those credentials don't match anything in our system. Double-check and try again.''))"
    if "fst (comparePassword lib u pw) = Inr False"
  proof -
    from that obtain calls where "comparePassword lib u pw = (Inr False, calls)"
      by (cases "comparePassword lib u pw") simp
    then show ?thesis by (simp add: login_wellformed [OF wf] found)
  qed
  ultimately show ?thesis using ne by (simp add: badInput_def)
qed

theorem login_deactivated_witness:
  "requireField (js ''bob'') (js ''usernameOrEmail'') = Inr () \<and>
   requireField (js ''Hunter22A'') (js ''password'') = Inr () \<and>
   findByCredential stub_library [alice, bob] (js ''bob'') = Some bob \<and> \<not> is_active bob \<and>
   fst (comparePassword stub_library bob (js ''Hunter22A'')) = Inr True \<and>
   fst (comparePassword stub_library bob (js ''wrong'')) = Inr False \<and>
   fst (login stub_library stub_env [alice, bob] 0 (js ''bob'') (js ''Hunter22A'')) =
     Inl (AppError (js ''This account has been deactivated. Reach out to support if that's unexpected.'')
            (js ''BAD_USER_INPUT'') 400) \<and>
   fst (login stub_library stub_env [alice, bob] 0 (js ''bob'') (js ''wrong'')) =
     Inl (AppError (js ''Those credentials don't match anything in our system. Double-check and try again.'')
            (js ''BAD_USER_INPUT'') 400)"
proof -
  have i: "\<not> is_active bob" by (simp add: bob_def)
  have c1: "fst (comparePassword stub_library bob (js ''Hunter22A'')) = Inr True"
    by (simp add: comparePassword_def stub_simps)
  have c2: "fst (comparePassword stub_library bob (js ''wrong'')) = Inr False"
    by (simp add: comparePassword_def stub_simps)
  have a: "fst (login stub_library stub_env [alice, bob] 0 (js ''bob'') (js ''Hunter22A'')) =
     Inl (AppError (js ''This account has been deactivated. Reach out to support if that's unexpected.'')
            (js ''BAD_USER_INPUT'') 400)"
    using login_deactivated [OF requireField_stub(2) requireField_stub(6) bob_found i, of stub_env 0,
            THEN conjunct1] c1 by simp
  have b: "fst (login stub_library stub_env [alice, bob] 0 (js ''bob'') (js ''wrong'')) =
     Inl (AppError (js ''Those credentials don't match anything in our system. Double-check and try again.'')
            (js ''BAD_USER_INPUT'') 400)"
    using login_deactivated [OF requireField_stub(2) requireField_stub(4) bob_found i, of stub_env 0,
            THEN conjunct2, THEN conjunct1] c2 by simp
  show ?thesis using a b c1 c2 i bob_found by (simp add: requireField_stub)
qed

text \<open>
  Claim C3. A login with non-blank fields, a record found, the password verified, the
  account active and the token signed for the account's \<open>_id\<close> with the configured
  time-to-live (\<open>JWT_EXPIRES_IN\<close>, or \<open>7d\<close>) returns that token, the token type
  \<open>Bearer\<close>, the time-to-live and the account. The resolver hands over the document it
  read (\<open>login_user\<close>, with the hash it selected for the comparison); the response of the
  operation is completed against the schema's \<open>User\<close> type and holds the six identity
  fields only, which have no place for the hash.
\<close>

theorem login_success:
  assumes wf: "requireField x (js ''usernameOrEmail'') = Inr ()" "requireField pw (js ''password'') = Inr ()"
      and found: "findByCredential lib users x = Some u"
      and verified: "fst (comparePassword lib u pw) = Inr True"
      and active: "is_active u"
      and issued: "jwt_sign lib (oid u) (JWT_SECRET penv) (or_default (JWT_EXPIRES_IN penv) (js ''7d'')) now = Inr t"
  shows "fst (login lib penv users now x pw) =
           Inr \<lparr>token = t, token_type = js ''Bearer'',
                expires_in = or_default (JWT_EXPIRES_IN penv) (js ''7d''), login_user = u\<rparr> \<and>
         Query_login lib penv users now x pw =
           Inr \<lparr>gql_token = t, gql_token_type = js ''Bearer'',
                gql_expires_in = or_default (JWT_EXPIRES_IN penv) (js ''7d''),
                gql_user = \<lparr>gql_id = oid u, gql_username = username u, gql_email = email u,
                            gql_is_active = True,
                            gql_created_at = toISOString lib (created_at u),
                            gql_updated_at = toISOString lib (updated_at u)\<rparr>\<rparr>"
proof -
  from verified obtain calls where "comparePassword lib u pw = (Inr True, calls)"
    by (cases "comparePassword lib u pw") simp
  then have l: "fst (login lib penv users now x pw) =
           Inr \<lparr>token = t, token_type = js ''Bearer'',
                expires_in = or_default (JWT_EXPIRES_IN penv) (js ''7d''), login_user = u\<rparr>"
    using issued by (simp add: login_wellformed [OF wf] found active signToken_def)
  then show ?thesis
    using active by (simp add: Query_login_def complete_AuthPayload_def complete_User_def)
qed

theorem login_success_witness:
  "requireField (js ''alice'') (js ''usernameOrEmail'') = Inr () \<and>
   requireField (js ''Passw0rd1'') (js ''password'') = Inr () \<and>
   findByCredential stub_library [alice, bob] (js ''alice'') = Some alice \<and>
   fst (comparePassword stub_library alice (js ''Passw0rd1'')) = Inr True \<and> is_active alice \<and>
   jwt_sign stub_library (oid alice) (JWT_SECRET stub_env) (or_default (JWT_EXPIRES_IN stub_env) (js ''7d'')) 0 =
     Inr (js ''tok.65f0a1b2c3d4e5f601234567'') \<and>
   Query_login stub_library stub_env [alice, bob] 0 (js ''alice'') (js ''Passw0rd1'') =
     Inr \<lparr>gql_token = js ''tok.65f0a1b2c3d4e5f601234567'', gql_token_type = js ''Bearer'',
          gql_expires_in = js ''7d'',
          gql_user = \<lparr>gql_id = js ''65f0a1b2c3d4e5f601234567'', gql_username = js ''alice'',
                      gql_email = js ''alice@x.com'', gql_is_active = True,
                      gql_created_at = js ''1970-01-01T00:00:00.000Z'',
                      gql_updated_at = js ''1970-01-01T00:00:00.000Z''\<rparr>\<rparr>"
proof -
  have v: "fst (comparePassword stub_library alice (js ''Passw0rd1'')) = Inr True"
    by (simp add: comparePassword_def stub_simps)
  have a: "is_active alice" by (simp add: alice_def)
  have s: "jwt_sign stub_library (oid alice) (JWT_SECRET stub_env)
             (or_default (JWT_EXPIRES_IN stub_env) (js ''7d'')) 0 = Inr (js ''tok.65f0a1b2c3d4e5f601234567'')"
    by (simp add: stub_simps)
  have q: "Query_login stub_library stub_env [alice, bob] 0 (js ''alice'') (js ''Passw0rd1'') =
     Inr \<lparr>gql_token = js ''tok.65f0a1b2c3d4e5f601234567'', gql_token_type = js ''Bearer'',
          gql_expires_in = js ''7d'',
          gql_user = \<lparr>gql_id = js ''65f0a1b2c3d4e5f601234567'', gql_username = js ''alice'',
                      gql_email = js ''alice@x.com'', gql_is_active = True,
                      gql_created_at = js ''1970-01-01T00:00:00.000Z'',
                      gql_updated_at = js ''1970-01-01T00:00:00.000Z''\<rparr>\<rparr>"
    using login_success [OF requireField_stub(1) requireField_stub(5) alice_found v a s, THEN conjunct2]
    by (simp add: stub_simps)
  show ?thesis using q v a s alice_found by (simp add: requireField_stub)
qed

text \<open>
  Claim C4, as amended. For a login with non-blank fields \<open>bcrypt.compare\<close> runs
  exactly once, on the submitted password and the stored hash, when a record is found,
  and does not run at all when no record is found: \<open>!user || ...\<close> short-circuits and
  there is no dummy hash.
\<close>

theorem login_compare_calls:
  assumes wf: "requireField x (js ''usernameOrEmail'') = Inr ()" "requireField pw (js ''password'') = Inr ()"
  shows "(findByCredential lib users x = None \<longrightarrow> snd (login lib penv users now x pw) = []) \<and>
         (\<forall>u h. findByCredential lib users x = Some u \<and> password u = Some h \<longrightarrow>
                  snd (login lib penv users now x pw) = [Compare pw h])"
  by (auto simp: login_wellformed [OF wf] comparePassword_def split: sum.splits)

theorem login_compare_calls_witness:
  "requireField (js ''alice'') (js ''usernameOrEmail'') = Inr () \<and>
   requireField (js ''wrong'') (js ''password'') = Inr () \<and>
   findByCredential stub_library [alice, bob] (js ''alice'') = Some alice \<and>
   password alice = Some (js ''$2a$xxPassw0rd1'') \<and>
   snd (login stub_library stub_env [alice, bob] 0 (js ''alice'') (js ''wrong'')) =
     [Compare (js ''wrong'') (js ''$2a$xxPassw0rd1'')] \<and>
   findByCredential stub_library [alice, bob] (js ''ghost'') = None \<and>
   snd (login stub_library stub_env [alice, bob] 0 (js ''ghost'') (js ''wrong'')) = []"
proof -
  have p: "password alice = Some (js ''$2a$xxPassw0rd1'')" by (simp add: alice_def)
  have a: "snd (login stub_library stub_env [alice, bob] 0 (js ''alice'') (js ''wrong'')) =
     [Compare (js ''wrong'') (js ''$2a$xxPassw0rd1'')]"
    using login_compare_calls [OF requireField_stub(1) requireField_stub(4), of stub_library "[alice, bob]" stub_env 0,
            THEN conjunct2] alice_found p by blast
  have b: "snd (login stub_library stub_env [alice, bob] 0 (js ''ghost'') (js ''wrong'')) = []"
    using login_compare_calls [OF requireField_stub(3) requireField_stub(4), of stub_library "[alice, bob]" stub_env 0,
            THEN conjunct1] ghost_not_found by blast
  show ?thesis using a b p alice_found ghost_not_found by (simp add: requireField_stub)
qed

text \<open>
  The claim as stated (one comparison whether or not a record was found) fails for an
  unknown identifier: no comparison runs.
\<close>

theorem login_compare_calls_counterexample:
  "requireField (js ''ghost'') (js ''usernameOrEmail'') = Inr () \<and>
   requireField (js ''Passw0rd1'') (js ''password'') = Inr () \<and>
   findByCredential stub_library [alice, bob] (js ''ghost'') = None \<and>
   length (snd (login stub_library stub_env [alice, bob] 0 (js ''ghost'') (js ''Passw0rd1''))) = 0"
  by (simp add: login_wellformed requireField_stub ghost_not_found)

section \<open>The context resolver\<close>

text \<open>
  Claim C2. \<open>buildContext\<close> always returns a context (it has no failure result) around
  the request it was given. The context is anonymous when the header is absent, does not
  start with \<open>Bearer \<close> or carries nothing after the prefix once trimmed; when
  \<open>jwt.verify\<close> throws, whatever the error; when no document has the decoded \<open>userId\<close>,
  or the document is inactive. Otherwise it holds the document that \<open>findById\<close> returned.
\<close>

theorem buildContext_identity:
  "(authorization r = None \<longrightarrow> user (buildContext lib penv users now r) = None) \<and>
   (\<forall>h. authorization r = Some h \<and> (\<not> startsWith h (js ''Bearer '') \<or> trim (slice_str 7 h) = []) \<longrightarrow>
        user (buildContext lib penv users now r) = None) \<and>
   (\<forall>h e. authorization r = Some h \<and> startsWith h (js ''Bearer '') \<and> trim (slice_str 7 h) \<noteq> [] \<and>
          jwt_verify lib (trim (slice_str 7 h)) (JWT_SECRET penv) now = Inl e \<longrightarrow>
        user (buildContext lib penv users now r) = None) \<and>
   (\<forall>h d. authorization r = Some h \<and> startsWith h (js ''Bearer '') \<and> trim (slice_str 7 h) \<noteq> [] \<and>
          jwt_verify lib (trim (slice_str 7 h)) (JWT_SECRET penv) now = Inr d \<and>
          (findById users (userId d) = None \<or>
           (\<exists>u. findById users (userId d) = Some u \<and> \<not> is_active u)) \<longrightarrow>
        user (buildContext lib penv users now r) = None) \<and>
   (\<forall>h d u. authorization r = Some h \<and> startsWith h (js ''Bearer '') \<and> trim (slice_str 7 h) \<noteq> [] \<and>
          jwt_verify lib (trim (slice_str 7 h)) (JWT_SECRET penv) now = Inr d \<and>
          findById users (userId d) = Some u \<and> is_active u \<longrightarrow>
        user (buildContext lib penv users now r) = Some u) \<and>
   req (buildContext lib penv users now r) = r"
proof -
  have not_bearer: "\<not> startsWith [] (js ''Bearer '')"
    by (simp add: startsWith_def js_def)
  have absent: "user (buildContext lib penv users now r) = None" if "authorization r = None"
    using that not_bearer by (simp add: buildContext_def or_default_def)
  have empty: "user (buildContext lib penv users now r) = None"
    if "authorization r = Some h" "\<not> startsWith h (js ''Bearer '') \<or> trim (slice_str 7 h) = []" for h
    using that not_bearer by (auto simp: buildContext_def or_default_def Let_def)
  have hdr: "or_default (Some h) [] = h" for h
    by (simp add: or_default_def)
  have failed: "user (buildContext lib penv users now r) = None"
    if "authorization r = Some h" "startsWith h (js ''Bearer '')" "trim (slice_str 7 h) \<noteq> []"
       "jwt_verify lib (trim (slice_str 7 h)) (JWT_SECRET penv) now = Inl e" for h e
    using that by (simp add: buildContext_def hdr Let_def)
  have gone: "user (buildContext lib penv users now r) = None"
    if "authorization r = Some h" "startsWith h (js ''Bearer '')" "trim (slice_str 7 h) \<noteq> []"
       "jwt_verify lib (trim (slice_str 7 h)) (JWT_SECRET penv) now = Inr d"
       "findById users (userId d) = None \<or> (\<exists>u. findById users (userId d) = Some u \<and> \<not> is_active u)" for h d
    using that by (auto simp: buildContext_def hdr Let_def)
  have ok: "user (buildContext lib penv users now r) = Some u"
    if "authorization r = Some h" "startsWith h (js ''Bearer '')" "trim (slice_str 7 h) \<noteq> []"
       "jwt_verify lib (trim (slice_str 7 h)) (JWT_SECRET penv) now = Inr d"
       "findById users (userId d) = Some u" "is_active u" for h d u
    using that by (simp add: buildContext_def hdr Let_def)
  have same_req: "req (buildContext lib penv users now r) = r"
    by (simp add: buildContext_def Let_def split: sum.splits option.splits)
  show ?thesis using absent empty failed gone ok same_req by blast
qed

lemma bearer_alice:
  "startsWith (js ''Bearer tok.65f0a1b2c3d4e5f601234567'') (js ''Bearer '')"
  "trim (slice_str 7 (js ''Bearer tok.65f0a1b2c3d4e5f601234567'')) = js ''tok.65f0a1b2c3d4e5f601234567''"
  by (simp_all add: startsWith_def slice_str_def stub_simps)

lemma bearer_bob:
  "startsWith (js ''Bearer tok.65f0a1b2c3d4e5f601234568'') (js ''Bearer '')"
  "trim (slice_str 7 (js ''Bearer tok.65f0a1b2c3d4e5f601234568'')) = js ''tok.65f0a1b2c3d4e5f601234568''"
  by (simp_all add: startsWith_def slice_str_def stub_simps)

lemma bearer_junk:
  "startsWith (js ''Bearer junk'') (js ''Bearer '')"
  "trim (slice_str 7 (js ''Bearer junk'')) = js ''junk''"
  by (simp_all add: startsWith_def slice_str_def stub_simps)

lemma verify_stub:
  "jwt_verify stub_library (js ''tok.65f0a1b2c3d4e5f601234567'') (JWT_SECRET stub_env) 0 =
     Inr \<lparr>userId = js ''65f0a1b2c3d4e5f601234567'', iat = 0, exp = 1\<rparr>"
  "jwt_verify stub_library (js ''tok.65f0a1b2c3d4e5f601234568'') (JWT_SECRET stub_env) 0 =
     Inr \<lparr>userId = js ''65f0a1b2c3d4e5f601234568'', iat = 0, exp = 1\<rparr>"
  "jwt_verify stub_library (js ''junk'') (JWT_SECRET stub_env) 0 = Inl (Error (js ''jwt malformed''))"
  by (simp_all add: stub_simps)

lemma findById_stub:
  "findById [alice, bob] (js ''65f0a1b2c3d4e5f601234567'') = Some (alice\<lparr>password := None\<rparr>)"
  "findById [alice, bob] (js ''65f0a1b2c3d4e5f601234568'') = Some (bob\<lparr>password := None\<rparr>)"
  by (simp_all add: findById_def stub_simps)

theorem buildContext_identity_witness:
  "user (buildContext stub_library stub_env [alice, bob] 0 \<lparr>authorization = None\<rparr>) = None \<and>
   user (buildContext stub_library stub_env [alice, bob] 0 \<lparr>authorization = Some (js ''Basic abc'')\<rparr>) = None \<and>
   user (buildContext stub_library stub_env [alice, bob] 0 \<lparr>authorization = Some (js ''Bearer   '')\<rparr>) = None \<and>
   user (buildContext stub_library stub_env [alice, bob] 0 \<lparr>authorization = Some (js ''Bearer junk'')\<rparr>) = None \<and>
   user (buildContext stub_library stub_env [alice, bob] 0
           \<lparr>authorization = Some (js ''Bearer tok.65f0a1b2c3d4e5f601234568'')\<rparr>) = None \<and>
   user (buildContext stub_library stub_env [alice, bob] 0
           \<lparr>authorization = Some (js ''Bearer tok.65f0a1b2c3d4e5f601234567'')\<rparr>) =
     Some (alice\<lparr>password := None\<rparr>)"
proof -
  have a: "user (buildContext stub_library stub_env [alice, bob] 0 \<lparr>authorization = None\<rparr>) = None"
    using buildContext_identity [of "\<lparr>authorization = None\<rparr>" stub_library stub_env "[alice, bob]" 0]
    by simp
  have "\<not> startsWith (js ''Basic abc'') (js ''Bearer '')"
    by (simp add: startsWith_def js_def)
  then have b: "user (buildContext stub_library stub_env [alice, bob] 0
                        \<lparr>authorization = Some (js ''Basic abc'')\<rparr>) = None"
    using buildContext_identity [of "\<lparr>authorization = Some (js ''Basic abc'')\<rparr>"
            stub_library stub_env "[alice, bob]" 0]
    by simp
  have "trim (slice_str 7 (js ''Bearer   '')) = []"
    by (simp add: slice_str_def stub_simps)
  then have c: "user (buildContext stub_library stub_env [alice, bob] 0
                        \<lparr>authorization = Some (js ''Bearer   '')\<rparr>) = None"
    using buildContext_identity [of "\<lparr>authorization = Some (js ''Bearer   '')\<rparr>"
            stub_library stub_env "[alice, bob]" 0]
    by simp
  have ne: "js ''junk'' \<noteq> []" "js ''tok.65f0a1b2c3d4e5f601234568'' \<noteq> []"
    "js ''tok.65f0a1b2c3d4e5f601234567'' \<noteq> []"
    by (simp_all add: js_def)
  have d: "user (buildContext stub_library stub_env [alice, bob] 0
                   \<lparr>authorization = Some (js ''Bearer junk'')\<rparr>) = None"
    using buildContext_identity [of "\<lparr>authorization = Some (js ''Bearer junk'')\<rparr>"
            stub_library stub_env "[alice, bob]" 0] bearer_junk verify_stub(3) ne(1)
    by simp
  have "\<not> is_active (bob\<lparr>password := None\<rparr>)" by (simp add: bob_def)
  then have e: "user (buildContext stub_library stub_env [alice, bob] 0
                   \<lparr>authorization = Some (js ''Bearer tok.65f0a1b2c3d4e5f601234568'')\<rparr>) = None"
    using buildContext_identity [of "\<lparr>authorization = Some (js ''Bearer tok.65f0a1b2c3d4e5f601234568'')\<rparr>"
            stub_library stub_env "[alice, bob]" 0] bearer_bob verify_stub(2) ne(2) findById_stub(2)
    by simp
  have "is_active (alice\<lparr>password := None\<rparr>)" by (simp add: alice_def)
  then have f: "user (buildContext stub_library stub_env [alice, bob] 0
                   \<lparr>authorization = Some (js ''Bearer tok.65f0a1b2c3d4e5f601234567'')\<rparr>) =
                 Some (alice\<lparr>password := None\<rparr>)"
    using buildContext_identity [of "\<lparr>authorization = Some (js ''Bearer tok.65f0a1b2c3d4e5f601234567'')\<rparr>"
            stub_library stub_env "[alice, bob]" 0] bearer_alice verify_stub(1) ne(3) findById_stub(1)
    by simp
  show ?thesis using a b c d e f by simp
qed

section \<open>Pagination\<close>

lemma safeLimit_range: "1 \<le> safeLimit limit \<and> safeLimit limit \<le> 100"
  by (simp add: safeLimit_def)

lemma safePage_pos: "1 \<le> safePage page"
  by (simp add: safePage_def)

lemma skip_nonneg: "0 \<le> skip page limit"
  using safeLimit_range [of limit] safePage_pos [of page] by (simp add: skip_def)

text \<open>
  Claim C10. For every \<open>page\<close> and \<open>limit\<close> argument (a 32-bit integer, \<open>null\<close>, or left
  out, when the defaults are page 1 and limit 20) the effective limit lies in 1..100,
  the effective page is at least 1, the skip is (page - 1) * limit and is not negative,
  and a successful \<open>getAllEmployees\<close> returns the sorted collection after that skip cut
  to the limit: at most 100 entries.
\<close>

theorem getAllEmployees_pagination:
  "1 \<le> safeLimit limit \<and> safeLimit limit \<le> 100 \<and> 1 \<le> safePage page \<and>
   skip page limit = (safePage page - 1) * safeLimit limit \<and> 0 \<le> skip page limit \<and>
   safePage Omitted = 1 \<and> safeLimit Omitted = 20 \<and>
   safePage (IntValue p) = max 1 (sint p) \<and> safeLimit (IntValue l) = min 100 (max 1 (sint l)) \<and>
   (\<forall>r. getAllEmployees ctx emps page limit = Inr r \<longrightarrow>
        length (employees r) \<le> 100 \<and> int (length (employees r)) \<le> safeLimit limit \<and>
        employees r = take (nat (safeLimit limit)) (drop (nat (skip page limit))
                        (sort_key (\<lambda>e. - emp_created_at e) emps)) \<and>
        total_count r = length emps)"
proof -
  have len: "length (employees r) \<le> 100 \<and> int (length (employees r)) \<le> safeLimit limit \<and>
        employees r = take (nat (safeLimit limit)) (drop (nat (skip page limit))
                        (sort_key (\<lambda>e. - emp_created_at e) emps)) \<and>
        total_count r = length emps"
    if "getAllEmployees ctx emps page limit = Inr r" for r
  proof -
    from that have r: "r = \<lparr>total_count = length emps,
               employees = take (nat (safeLimit limit))
                             (drop (nat (skip page limit))
                                (sort_key (\<lambda>e. - emp_created_at e) emps))\<rparr>"
      by (auto simp: getAllEmployees_def split: sum.splits)
    have l: "length (employees r) \<le> nat (safeLimit limit)"
      by (simp add: r)
    have a: "length (employees r) \<le> 100"
      using l safeLimit_range [of limit] by linarith
    have b: "int (length (employees r)) \<le> safeLimit limit"
      using l safeLimit_range [of limit] by linarith
    have e: "employees r = take (nat (safeLimit limit)) (drop (nat (skip page limit))
                        (sort_key (\<lambda>e. - emp_created_at e) emps))"
      by (simp add: r)
    have t: "total_count r = length emps"
      by (simp add: r)
    show ?thesis using a b e t by blast
  qed
  have defaults: "safePage Omitted = 1" "safeLimit Omitted = 20"
    "safePage (IntValue p) = max 1 (sint p)" "safeLimit (IntValue l) = min 100 (max 1 (sint l))"
    by (simp_all add: safePage_def safeLimit_def with_default_def ToNumber_def)
  have sk: "skip page limit = (safePage page - 1) * safeLimit limit"
    by (simp add: skip_def)
  show ?thesis
    using safeLimit_range [of limit] safePage_pos [of page] skip_nonneg [of page limit] len defaults sk
    by blast
qed

theorem getAllEmployees_pagination_witness:
  "getAllEmployees \<lparr>user = Some alice, req = \<lparr>authorization = None\<rparr>\<rparr>
      (replicate 150 carol_emp) (IntValue 0) (IntValue 99999) =
     Inr \<lparr>total_count = 150, employees = replicate 100 carol_emp\<rparr> \<and>
   length (employees \<lparr>total_count = 150, employees = replicate 100 carol_emp\<rparr>) \<le> 100 \<and>
   safeLimit (IntValue 99999) = 100 \<and> safePage (IntValue 0) = 1 \<and>
   skip (IntValue 0) (IntValue 99999) = 0"
proof -
  have lim: "safeLimit (IntValue 99999) = 100"
    by (simp add: safeLimit_def with_default_def ToNumber_def)
  have pg: "safePage (IntValue 0) = 1"
    by (simp add: safePage_def with_default_def ToNumber_def)
  have sk: "skip (IntValue 0) (IntValue 99999) = 0"
    by (simp add: skip_def pg)
  have srt: "sort_key (\<lambda>e. - emp_created_at e) (replicate 150 carol_emp) = replicate 150 carol_emp"
    by (rule sort_key_id_if_sorted) (simp add: sorted_iff_nth_mono_less)
  have run: "getAllEmployees \<lparr>user = Some alice, req = \<lparr>authorization = None\<rparr>\<rparr>
      (replicate 150 carol_emp) (IntValue 0) (IntValue 99999) =
     Inr \<lparr>total_count = 150, employees = replicate 100 carol_emp\<rparr>"
    by (simp add: getAllEmployees_def requireAuth_def lim sk srt)
  have len: "length (employees \<lparr>total_count = 150, employees = replicate 100 carol_emp\<rparr>) \<le> 100"
    using getAllEmployees_pagination [of "IntValue 99999" "IntValue 0" 0 0
            "\<lparr>user = Some alice, req = \<lparr>authorization = None\<rparr>\<rparr>" "replicate 150 carol_emp"]
          run
    by blast
  show ?thesis
    using run len lim pg sk by blast
qed

section \<open>Signup\<close>

lemma word_char_not_space:
  "isLower c \<or> isUpper c \<or> isDigit c \<or> c = 0x5F \<Longrightarrow> \<not> isWhiteSpace c"
  unfolding isLower_def isUpper_def isDigit_def isWhiteSpace_def word_le_nat_alt word_unat_eq_iff
  by simp arith

lemma trim_id:
  assumes "s \<noteq> []" "\<not> isWhiteSpace (hd s)" "\<not> isWhiteSpace (last s)"
  shows "trim s = s"
proof -
  have a: "dropWhile isWhiteSpace s = s"
    using assms by (cases s) simp_all
  have b: "dropWhile isWhiteSpace (rev s) = rev s"
    using assms by (cases "rev s") (simp_all add: hd_rev)
  show ?thesis by (simp add: trim_def a b)
qed

lemma trim_word: "isWordString s \<Longrightarrow> trim s = s"
  by (rule trim_id) (auto simp: isWordString_def list_all_iff intro!: word_char_not_space)


lemma trim_eq_Nil: "trim s = [] \<longleftrightarrow> (\<forall>c\<in>set s. isWhiteSpace c)"
proof
  assume t: "trim s = []"
  show "\<forall>c\<in>set s. isWhiteSpace c"
  proof (cases "dropWhile isWhiteSpace s")
    case Nil
    then show ?thesis by (simp add: dropWhile_eq_Nil_conv)
  next
    case (Cons a as)
    then have "\<not> isWhiteSpace a"
      using hd_dropWhile [of isWhiteSpace s] by simp
    moreover from t have "\<forall>c\<in>set (dropWhile isWhiteSpace s). isWhiteSpace c"
      by (simp add: trim_def dropWhile_eq_Nil_conv)
    ultimately show ?thesis using Cons by simp
  qed
next
  assume "\<forall>c\<in>set s. isWhiteSpace c"
  then have d: "dropWhile isWhiteSpace s = []"
    by (induction s) simp_all
  show "trim s = []" unfolding trim_def d by simp
qed

lemma requireField_word: "isWordString s \<Longrightarrow> requireField s f = Inr ()"
  using trim_word [of s] by (auto simp: requireField_def isWordString_def)

lemma upper_not_space: "isUpper c \<Longrightarrow> \<not> isWhiteSpace c"
  using word_char_not_space [of c] by blast

lemma validatePassword_requireField:
  assumes "validatePassword pw = Inr ()"
  shows "requireField pw f = Inr ()" and "8 \<le> length pw"
proof -
  from assms have nonempty: "pw \<noteq> []" and len: "\<not> length pw < 8" and up: "list_ex isUpper pw"
    by (auto simp: validatePassword_def split: if_splits)
  from up obtain c where "c \<in> set pw" "isUpper c"
    by (auto simp: list_ex_iff)
  then have "trim pw \<noteq> []"
    using upper_not_space by (auto simp: trim_eq_Nil)
  then show "requireField pw f = Inr ()"
    using nonempty by (simp add: requireField_def)
  show "8 \<le> length pw" using len by simp
qed

lemma signup_rejects_short_or_malformed:
  assumes "length uname < 3 \<or> \<not> isWordString uname"
  shows "\<exists>m. signup lib salt fresh now users uname mail pw =
           (Inl (AppError m (js ''BAD_USER_INPUT'') 400), users)"
  using assms
  by (auto simp: signup_def requireField_def validateEmail_def validatePassword_def badInput_def
           split: if_splits)

text \<open>
  Claim C9. The \<open>signup\<close> resolver refuses a username shorter than 3 code units or with
  a character outside letters, digits and underscore with a \<open>BAD_USER_INPUT\<close> error and
  leaves the collection as it was (\<open>signup_rejects_short_or_malformed\<close>). It does not
  check the upper bound: a username of more than 30 word characters, with an email and
  a password that pass and no account in the way, goes through the resolver's checks
  and is refused only by the schema's \<open>maxlength\<close> validator inside \<open>User.create\<close>. The
  error is then Mongoose's \<open>ValidationError\<close>, not an \<open>AppError\<close> of code
  \<open>BAD_USER_INPUT\<close>; the collection is unchanged.
\<close>

theorem signup_long_username:
  assumes long: "30 < length uname" and word: "isWordString uname"
      and mail_given: "requireField mail (js ''email'') = Inr ()"
      and mail_ok: "isEmail lib mail"
      and pw_ok: "validatePassword pw = Inr ()"
      and free: "find (\<lambda>u. username u = trim uname \<or> email u = trim (toLowerCase lib mail)) users = None"
  shows "signup lib salt fresh now users uname mail pw =
           (Inl (ValidationError
                  ((js ''username'', js ''Username can't be longer than 30 characters.'') #
                   validate_email lib (toLowerCase lib (trim (trim mail))))), users)"
proof -
  have u: "requireField uname (js ''username'') = Inr ()"
    by (rule requireField_word [OF word])
  have p: "requireField pw (js ''password'') = Inr ()"
    by (rule validatePassword_requireField(1) [OF pw_ok])
  have t: "trim uname = uname" by (rule trim_word [OF word])
  have ne: "uname \<noteq> []" using long by auto
  have v: "validate_username uname =
             [(js ''username'', js ''Username can't be longer than 30 characters.'')]"
    using long ne by (simp add: validate_username_def)
  have vp: "validate_password pw = []"
    using validatePassword_requireField(2) [OF pw_ok] by (auto simp: validate_password_def)
  have s: "signup lib salt fresh now users uname mail pw =
             User_create lib salt fresh now users
               \<lparr>input_username = uname, input_email = trim mail, input_password = pw\<rparr>"
    using long word free
    by (simp add: signup_def u p mail_given pw_ok validateEmail_def mail_ok t)
  show ?thesis
    by (simp add: s User_create_def new_User_def validate_def t v vp)
qed

theorem signup_long_username_witness:
  "30 < length (replicate 31 (0x61 :: 16 word)) \<and> isWordString (replicate 31 0x61) \<and>
   requireField (js ''a@b.co'') (js ''email'') = Inr () \<and> isEmail stub_library (js ''a@b.co'') \<and>
   validatePassword (js ''Passw0rd1'') = Inr () \<and>
   signup stub_library (js ''xx'') (js ''65f0a1b2c3d4e5f601234569'') 5 [] (replicate 31 0x61)
       (js ''a@b.co'') (js ''Passw0rd1'') =
     (Inl (ValidationError [(js ''username'', js ''Username can't be longer than 30 characters.'')]), [])"
proof -
  have l: "30 < length (replicate 31 (0x61 :: 16 word))" by simp
  have w: "isWordString (replicate 31 0x61)"
    by (simp add: isWordString_def list_all_iff isLower_def)
  have g: "requireField (js ''a@b.co'') (js ''email'') = Inr ()"
    by (simp add: requireField_def stub_simps)
  have m: "isEmail stub_library (js ''a@b.co'')"
    by (simp add: stub_simps)
  have p: "validatePassword (js ''Passw0rd1'') = Inr ()"
    by (simp add: validatePassword_def stub_simps)
  have f: "find (\<lambda>u. username u = trim (replicate 31 0x61) \<or>
                     email u = trim (toLowerCase stub_library (js ''a@b.co''))) [] = None"
    by simp
  have e: "validate_email stub_library (toLowerCase stub_library (trim (trim (js ''a@b.co'')))) = []"
    by (simp add: validate_email_def stub_simps)
  show ?thesis
    using signup_long_username [OF l w g m p f, of "js ''xx''" "js ''65f0a1b2c3d4e5f601234569''" 5]
          l w g m p
    by (simp add: e)
qed

section \<open>Stored passwords\<close>

text \<open>
  The hook hashes a modified password and leaves an unmodified one alone, and a
  successful \<open>signup\<close> stores the hash of the password it was given.
\<close>

lemma pre_save_hashes:
  "isModified (js ''password'') \<Longrightarrow> password this = Some p \<Longrightarrow>
     pre_save lib salt isModified this = Inr (this\<lparr>password := Some (bcrypt_hash lib p 12 salt)\<rparr>)"
  "\<not> isModified (js ''password'') \<Longrightarrow> pre_save lib salt isModified this = Inr this"
  by (simp_all add: pre_save_def)

lemma signup_hashes_password:
  assumes "signup lib salt fresh now users uname mail pw = (Inr u, users')"
  shows "password u = Some (bcrypt_hash lib pw 12 salt) \<and> users' = users @ [u]"
proof -
  from assms have c: "User_create lib salt fresh now users
      \<lparr>input_username = trim uname, input_email = trim mail, input_password = pw\<rparr> = (Inr u, users')"
    by (auto simp: signup_def split: sum.splits if_splits option.splits)
  then show ?thesis
    by (auto simp: User_create_def Let_def new_User_def pre_save_def insertOne_def
             split: list.splits sum.splits if_splits)
qed

lemma sample_usernames:
  "validate_username (js ''admin'') = []" "validate_username (js ''testuser'') = []"
  "trim (js ''admin'') = js ''admin''" "trim (js ''testuser'') = js ''testuser''"
  "trim (js ''admin@comp3133.ca'') = js ''admin@comp3133.ca''"
  "trim (js ''testuser@comp3133.ca'') = js ''testuser@comp3133.ca''"
  "validate_password (js ''Admin1234'') = []" "validate_password (js ''Test1234'') = []"
  "js ''admin'' \<noteq> js ''testuser''" "js ''admin@comp3133.ca'' \<noteq> js ''testuser@comp3133.ca''"
  by (simp_all add: validate_username_def validate_password_def isWordString_def stub_simps)

text \<open>
  Claim C8. Documents written through \<open>save\<close> hold a hash (\<open>signup_hashes_password\<close>),
  but the seed script writes \<open>SAMPLE_USERS\<close> with \<open>User.insertMany\<close>, which validates and
  inserts without running the pre-save hook. With a validator that accepts the two
  sample addresses (already lower-case) and two distinct fresh ids, the user collection
  after \<open>seed\<close> is the two sample accounts with the password field holding the sample
  passwords as given, \<open>Admin1234\<close> and \<open>Test1234\<close>, not a hash of them.
\<close>

theorem seed_stores_plaintext:
  assumes lower: "toLowerCase lib (js ''admin@comp3133.ca'') = js ''admin@comp3133.ca''"
                 "toLowerCase lib (js ''testuser@comp3133.ca'') = js ''testuser@comp3133.ca''"
      and mails: "isEmail lib (js ''admin@comp3133.ca'')" "isEmail lib (js ''testuser@comp3133.ca'')"
      and ids: "fresh 0 \<noteq> fresh 1"
  shows "seed lib fresh now users =
           [\<lparr>oid = fresh 0, username = js ''admin'', email = js ''admin@comp3133.ca'',
             password = Some (js ''Admin1234''), is_active = True, created_at = now, updated_at = now\<rparr>,
            \<lparr>oid = fresh 1, username = js ''testuser'', email = js ''testuser@comp3133.ca'',
             password = Some (js ''Test1234''), is_active = True, created_at = now, updated_at = now\<rparr>] \<and>
         map password (seed lib fresh now users) = map (\<lambda>d. Some (input_password d)) SAMPLE_USERS"
proof -
  have ne: "js ''admin@comp3133.ca'' \<noteq> []" "js ''testuser@comp3133.ca'' \<noteq> []"
    by (simp_all add: js_def)
  have ve: "validate_email lib (js ''admin@comp3133.ca'') = []"
    "validate_email lib (js ''testuser@comp3133.ca'') = []"
    using mails ne by (simp_all add: validate_email_def)
  have docs: "map (\<lambda>(i, doc). new_User lib (fresh i) now doc) (enumerate 0 SAMPLE_USERS) =
           [\<lparr>oid = fresh 0, username = js ''admin'', email = js ''admin@comp3133.ca'',
             password = Some (js ''Admin1234''), is_active = True, created_at = now, updated_at = now\<rparr>,
            \<lparr>oid = fresh 1, username = js ''testuser'', email = js ''testuser@comp3133.ca'',
             password = Some (js ''Test1234''), is_active = True, created_at = now, updated_at = now\<rparr>]"
    by (simp add: SAMPLE_USERS_def new_User_def sample_usernames lower)
  have s: "seed lib fresh now users =
           [\<lparr>oid = fresh 0, username = js ''admin'', email = js ''admin@comp3133.ca'',
             password = Some (js ''Admin1234''), is_active = True, created_at = now, updated_at = now\<rparr>,
            \<lparr>oid = fresh 1, username = js ''testuser'', email = js ''testuser@comp3133.ca'',
             password = Some (js ''Test1234''), is_active = True, created_at = now, updated_at = now\<rparr>]"
    unfolding seed_def User_insertMany_def docs User_deleteMany_def
    using ids sample_usernames(3-4,9-10)
    by (simp add: validate_def ve insertOne_def sample_usernames(1-2,7-8))
  show ?thesis
    unfolding s by (simp add: SAMPLE_USERS_def)
qed

theorem seed_stores_plaintext_witness:
  "toLowerCase stub_library (js ''admin@comp3133.ca'') = js ''admin@comp3133.ca'' \<and>
   toLowerCase stub_library (js ''testuser@comp3133.ca'') = js ''testuser@comp3133.ca'' \<and>
   isEmail stub_library (js ''admin@comp3133.ca'') \<and> isEmail stub_library (js ''testuser@comp3133.ca'') \<and>
   map password (seed stub_library (\<lambda>i. replicate 24 (0x30 + of_nat i)) 7 [alice, bob]) =
     [Some (js ''Admin1234''), Some (js ''Test1234'')]"
proof -
  have l: "toLowerCase stub_library (js ''admin@comp3133.ca'') = js ''admin@comp3133.ca''"
    "toLowerCase stub_library (js ''testuser@comp3133.ca'') = js ''testuser@comp3133.ca''"
    by (simp_all add: stub_simps)
  have m: "isEmail stub_library (js ''admin@comp3133.ca'')" "isEmail stub_library (js ''testuser@comp3133.ca'')"
    by (simp_all add: stub_simps)
  have i: "(\<lambda>i. replicate 24 ((0x30 :: 16 word) + of_nat i)) 0 \<noteq> (\<lambda>i. replicate 24 (0x30 + of_nat i)) 1"
    by simp
  show ?thesis
    using seed_stores_plaintext [OF l m i, of 7 "[alice, bob]", THEN conjunct2] l m
    by (simp add: SAMPLE_USERS_def)
qed

end
